theory Spec2Isabelle
  imports Main
begin

section \<open>Shapes, matrices and Python iterators\<close>

text \<open>
  A shape is the pair (nrows, ncols) of \<^verbatim>\<open>ShapeLike\<close>. Both dimensions are
  non-negative integers, so they are modelled by \<^typ>\<open>nat\<close>. The exceptions the
  functions of \<^verbatim>\<open>matrices/abstract.py\<close> can raise are values of \<open>error\<close>: both
  checks of \<^verbatim>\<open>matmul\<close> and the check of \<^verbatim>\<open>matmap\<close> and \<^verbatim>\<open>matcmp\<close> raise
  Python's \<^verbatim>\<open>ValueError\<close>; the payload tells the one raised with the
  "incompatible with operand shape" message (holding both shapes) from the one
  raised without a message for a zero inner dimension.
\<close>

type_synonym shape = "nat \<times> nat"

datatype value_error = ShapeMismatch shape shape | DegenerateDimension

datatype error = ValueError value_error | IndexError | TypeError

text \<open>\<^verbatim>\<open>ShapeLike.__eq__\<close>: both components are compared, one after the other.\<close>

definition shape_eq :: "shape \<Rightarrow> shape \<Rightarrow> bool" where
  "shape_eq u v = (fst u = fst v \<and> snd u = snd v)"

text \<open>\<^verbatim>\<open>u != v\<close> on shapes: Python's default \<^verbatim>\<open>__ne__\<close> negates \<^verbatim>\<open>__eq__\<close>.\<close>

definition shape_ne :: "shape \<Rightarrow> shape \<Rightarrow> bool" where
  "shape_ne u v = (\<not> shape_eq u v)"

text \<open>
  A matrix object: its identity (what \<^verbatim>\<open>is\<close> compares), its shape and its
  elements in row-major order. Elements are Python objects: equality of
  \<^typ>\<open>'a\<close> in HOL is object identity, and the operations of the element type
  (\<^verbatim>\<open>__lt__\<close>, \<^verbatim>\<open>__gt__\<close>, \<^verbatim>\<open>__eq__\<close>, \<^verbatim>\<open>__add__\<close>, \<^verbatim>\<open>__mul__\<close>) are
  parameters of the functions that use them.
\<close>

record 'a matrix =
  ident :: nat
  shape :: shape
  items :: "'a list"

definition nrows :: "'a matrix \<Rightarrow> nat" where
  "nrows a = fst (shape a)"

definition ncols :: "'a matrix \<Rightarrow> nat" where
  "ncols a = snd (shape a)"

text \<open>\<^verbatim>\<open>MatrixLike.size\<close>: the product of the two dimensions.\<close>

definition msize :: "'a matrix \<Rightarrow> nat" where
  "msize a = (case shape a of (m, n) \<Rightarrow> m * n)"

text \<open>The storage invariant of a constructed matrix.\<close>

definition wf_matrix :: "'a matrix \<Rightarrow> bool" where
  "wf_matrix a = (length (items a) = msize a)"

text \<open>
  Modelled from the spec: \<^verbatim>\<open>MatrixLike.__getitem__\<close> is abstract in the source
  (its concrete implementations are not part of it). A single integer key in
  \<open>[0, size)\<close> maps in row-major order to an element; a key out of range fails
  with \<^verbatim>\<open>IndexError\<close>.
\<close>

definition getitem :: "'a matrix \<Rightarrow> nat \<Rightarrow> error + 'a" where
  "getitem a k =
     (if k < msize a \<and> k < length (items a) then Inr (items a ! k) else Inl IndexError)"

text \<open>
  A Python iterator over finitely many values is the trace of what advancing it
  gives: a value and the rest, the end (\<^verbatim>\<open>StopIteration\<close>), or an exception
  raised by the code that computes the next value. Nothing of the trace is run
  by creating the iterator; \<open>py_next\<close> advances it by one step.
\<close>

datatype 'a iter = Yield 'a "'a iter" | StopIteration | Raise error

datatype 'a step = Value 'a | Stopped | Raised error

fun py_next :: "'a iter \<Rightarrow> 'a step \<times> 'a iter" where
  "py_next (Yield x it) = (Value x, it)"
| "py_next StopIteration = (Stopped, StopIteration)"
| "py_next (Raise e) = (Raised e, StopIteration)"

text \<open>\<^verbatim>\<open>list(it)\<close>: the values of the iterator, or the exception it raises.\<close>

fun py_list :: "'a iter \<Rightarrow> error + 'a list" where
  "py_list StopIteration = Inr []"
| "py_list (Raise e) = Inl e"
| "py_list (Yield x it) = (case py_list it of Inl e \<Rightarrow> Inl e | Inr xs \<Rightarrow> Inr (x # xs))"

text \<open>The iterator over the values of a list, which raises nothing.\<close>

fun iter_of :: "'a list \<Rightarrow> 'a iter" where
  "iter_of [] = StopIteration"
| "iter_of (x # xs) = Yield x (iter_of xs)"

text \<open>
  \<^verbatim>\<open>map(f, keys)\<close> over a range of keys, for an \<open>f\<close> that may raise: the values
  are computed one at a time, and the first exception ends the iteration.
\<close>

fun range_map :: "(nat \<Rightarrow> error + 'a) \<Rightarrow> nat list \<Rightarrow> 'a iter" where
  "range_map f [] = StopIteration"
| "range_map f (k # ks) =
     (case f k of Inl e \<Rightarrow> Raise e | Inr v \<Rightarrow> Yield v (range_map f ks))"

text \<open>
  \<^verbatim>\<open>map(func, a, b)\<close> over two iterators: each step advances the first, then
  the second, and stops at the first of them that is exhausted or raises.
  \<^verbatim>\<open>zip(a, b)\<close> is the same with pairing.
\<close>

fun py_map2 :: "('a \<Rightarrow> 'b \<Rightarrow> 'c) \<Rightarrow> 'a iter \<Rightarrow> 'b iter \<Rightarrow> 'c iter" where
  "py_map2 f (Raise e) ib = Raise e"
| "py_map2 f StopIteration ib = StopIteration"
| "py_map2 f (Yield x ia) (Raise e) = Raise e"
| "py_map2 f (Yield x ia) StopIteration = StopIteration"
| "py_map2 f (Yield x ia) (Yield y ib) = Yield (f x y) (py_map2 f ia ib)"

definition py_zip :: "'a iter \<Rightarrow> 'b iter \<Rightarrow> ('a \<times> 'b) iter" where
  "py_zip ia ib = py_map2 Pair ia ib"

text \<open>\<^verbatim>\<open>all(it)\<close>: false at the first false value, true at the end.\<close>

fun py_all :: "bool iter \<Rightarrow> error + bool" where
  "py_all StopIteration = Inr True"
| "py_all (Raise e) = Inl e"
| "py_all (Yield x it) = (if x then py_all it else Inr False)"

text \<open>
  \<^verbatim>\<open>functools.reduce(f, it)\<close> with no initial value: the first value starts the
  accumulator, the others are folded in from the left; an empty iterator is a
  \<^verbatim>\<open>TypeError\<close>.
\<close>

fun reduce_from :: "('a \<Rightarrow> 'a \<Rightarrow> 'a) \<Rightarrow> 'a \<Rightarrow> 'a iter \<Rightarrow> error + 'a" where
  "reduce_from f acc StopIteration = Inr acc"
| "reduce_from f acc (Raise e) = Inl e"
| "reduce_from f acc (Yield x it) = reduce_from f (f acc x) it"

fun reduce :: "('a \<Rightarrow> 'a \<Rightarrow> 'a) \<Rightarrow> 'a iter \<Rightarrow> error + 'a" where
  "reduce f StopIteration = Inl TypeError"
| "reduce f (Raise e) = Inl e"
| "reduce f (Yield x it) = reduce_from f x it"

text \<open>
  The body of a generator: \<open>gen_for keys body\<close> is \<^verbatim>\<open>for k in keys: body(k)\<close>,
  where each body yields its values and then falls through to the next key, and
  \<open>gen_yield r\<close> is \<^verbatim>\<open>yield expr\<close> for an expression that may raise.
\<close>

fun gen_seq :: "'a iter \<Rightarrow> 'a iter \<Rightarrow> 'a iter" where
  "gen_seq (Yield x it) rest = Yield x (gen_seq it rest)"
| "gen_seq StopIteration rest = rest"
| "gen_seq (Raise e) rest = Raise e"

fun gen_for :: "'k list \<Rightarrow> ('k \<Rightarrow> 'a iter) \<Rightarrow> 'a iter" where
  "gen_for [] body = StopIteration"
| "gen_for (k # ks) body = gen_seq (body k) (gen_for ks body)"

definition gen_yield :: "error + 'a \<Rightarrow> 'a iter" where
  "gen_yield r = (case r of Inl e \<Rightarrow> Raise e | Inr v \<Rightarrow> Yield v StopIteration)"

text \<open>\<^verbatim>\<open>MatrixLike.__iter__\<close>: the values of the matrix in row-major order.\<close>

definition mat_iter :: "'a matrix \<Rightarrow> 'a iter" where
  "mat_iter a = (let keys = [0..<msize a] in range_map (getitem a) keys)"

section \<open>matmap, matcmp, matmul\<close>

text \<open>
  \<^verbatim>\<open>matmap(func, a, b)\<close> is an ordinary function: the shapes are compared when
  it is called, and the result is the \<^verbatim>\<open>map\<close> object.
\<close>

definition matmap :: "('a \<Rightarrow> 'b \<Rightarrow> 'c) \<Rightarrow> 'a matrix \<Rightarrow> 'b matrix \<Rightarrow> error + 'c iter" where
  "matmap func a b =
     (let u = shape a; v = shape b in
      if shape_ne u v then Inl (ValueError (ShapeMismatch u v))
      else Inr (py_map2 func (mat_iter a) (mat_iter b)))"

text \<open>
  \<^verbatim>\<open>matcmp(a, b)\<close>: the loop over \<^verbatim>\<open>zip(a, b)\<close> returns at the first pair with
  \<^verbatim>\<open>x < y\<close> or \<^verbatim>\<open>x > y\<close>, tested in this order.
\<close>

fun matcmp_loop :: "('a \<Rightarrow> 'b \<Rightarrow> bool) \<Rightarrow> ('a \<Rightarrow> 'b \<Rightarrow> bool) \<Rightarrow> ('a \<times> 'b) iter \<Rightarrow> error + int" where
  "matcmp_loop lt gt StopIteration = Inr 0"
| "matcmp_loop lt gt (Raise e) = Inl e"
| "matcmp_loop lt gt (Yield xy it) =
     (case xy of (x, y) \<Rightarrow>
        if lt x y then Inr (- 1)
        else if gt x y then Inr 1
        else matcmp_loop lt gt it)"

definition matcmp :: "('a \<Rightarrow> 'b \<Rightarrow> bool) \<Rightarrow> ('a \<Rightarrow> 'b \<Rightarrow> bool) \<Rightarrow> 'a matrix \<Rightarrow> 'b matrix \<Rightarrow> error + int" where
  "matcmp lt gt a b =
     (let u = shape a; v = shape b in
      if shape_ne u v then Inl (ValueError (ShapeMismatch u v))
      else matcmp_loop lt gt (py_zip (mat_iter a) (mat_iter b)))"

text \<open>
  \<^verbatim>\<open>matmul(a, b)\<close> is a generator function. \<open>matmul_body\<close> is its body, from
  the unpacking of the shapes to the end of the loops; \<open>matmul\<close> is the call,
  which creates the generator and runs nothing of the body.
\<close>

definition matmul_term :: "('a \<Rightarrow> 'b \<Rightarrow> 'c) \<Rightarrow> 'a matrix \<Rightarrow> 'b matrix \<Rightarrow> nat \<Rightarrow> nat \<Rightarrow> nat \<Rightarrow> nat \<Rightarrow> nat \<Rightarrow> error + 'c" where
  "matmul_term mul a b n q i j k =
     (case getitem a (i * n + k) of
        Inl e \<Rightarrow> Inl e
      | Inr x \<Rightarrow> (case getitem b (k * q + j) of
                   Inl e \<Rightarrow> Inl e
                 | Inr y \<Rightarrow> Inr (mul x y)))"

definition matmul_body :: "('c \<Rightarrow> 'c \<Rightarrow> 'c) \<Rightarrow> ('a \<Rightarrow> 'b \<Rightarrow> 'c) \<Rightarrow> 'a matrix \<Rightarrow> 'b matrix \<Rightarrow> 'c iter" where
  "matmul_body add mul a b =
     (case (shape a, shape b) of ((m, n), (p, q)) \<Rightarrow>
        if n \<noteq> p then Raise (ValueError (ShapeMismatch (shape a) (shape b)))
        else if n = 0 then Raise (ValueError DegenerateDimension)
        else
          let ix = [0..<m]; jx = [0..<q]; kx = [0..<n] in
          gen_for ix (\<lambda>i.
            gen_for jx (\<lambda>j.
              gen_yield (reduce add (range_map (matmul_term mul a b n q i j) kx)))))"

definition matmul :: "('c \<Rightarrow> 'c \<Rightarrow> 'c) \<Rightarrow> ('a \<Rightarrow> 'b \<Rightarrow> 'c) \<Rightarrow> 'a matrix \<Rightarrow> 'b matrix \<Rightarrow> error + 'c iter" where
  "matmul add mul a b = Inr (matmul_body add mul a b)"

section \<open>The operators of MatrixLike\<close>

text \<open>
  \<^verbatim>\<open>MatrixLike.__eq__\<close>, for an operand that is a matrix: true at once when both
  operands are the same object, and otherwise \<^verbatim>\<open>all\<close> of the \<^verbatim>\<open>matmap\<close> of
  \<^verbatim>\<open>x is y or x == y\<close>, where \<open>eq\<close> is the \<^verbatim>\<open>__eq__\<close> of the elements. (For an
  operand that is no matrix the method returns \<^verbatim>\<open>NotImplemented\<close>; the type of
  \<open>other\<close> leaves that case out.)
\<close>

definition mat_eq :: "('a \<Rightarrow> 'a \<Rightarrow> bool) \<Rightarrow> 'a matrix \<Rightarrow> 'a matrix \<Rightarrow> error + bool" where
  "mat_eq eq self other =
     (if ident self = ident other then Inr True
      else case matmap (\<lambda>x y. x = y \<or> eq x y) self other of
             Inl e \<Rightarrow> Inl e
           | Inr it \<Rightarrow> py_all it)"

text \<open>The four ordering operators: sign tests of \<^verbatim>\<open>matcmp(self, other)\<close>.\<close>

definition mat_lt :: "('a \<Rightarrow> 'b \<Rightarrow> bool) \<Rightarrow> ('a \<Rightarrow> 'b \<Rightarrow> bool) \<Rightarrow> 'a matrix \<Rightarrow> 'b matrix \<Rightarrow> error + bool" where
  "mat_lt lt gt self other =
     (case matcmp lt gt self other of Inl e \<Rightarrow> Inl e | Inr c \<Rightarrow> Inr (c < 0))"

definition mat_le :: "('a \<Rightarrow> 'b \<Rightarrow> bool) \<Rightarrow> ('a \<Rightarrow> 'b \<Rightarrow> bool) \<Rightarrow> 'a matrix \<Rightarrow> 'b matrix \<Rightarrow> error + bool" where
  "mat_le lt gt self other =
     (case matcmp lt gt self other of Inl e \<Rightarrow> Inl e | Inr c \<Rightarrow> Inr (c \<le> 0))"

definition mat_gt :: "('a \<Rightarrow> 'b \<Rightarrow> bool) \<Rightarrow> ('a \<Rightarrow> 'b \<Rightarrow> bool) \<Rightarrow> 'a matrix \<Rightarrow> 'b matrix \<Rightarrow> error + bool" where
  "mat_gt lt gt self other =
     (case matcmp lt gt self other of Inl e \<Rightarrow> Inl e | Inr c \<Rightarrow> Inr (c > 0))"

definition mat_ge :: "('a \<Rightarrow> 'b \<Rightarrow> bool) \<Rightarrow> ('a \<Rightarrow> 'b \<Rightarrow> bool) \<Rightarrow> 'a matrix \<Rightarrow> 'b matrix \<Rightarrow> error + bool" where
  "mat_ge lt gt self other =
     (case matcmp lt gt self other of Inl e \<Rightarrow> Inl e | Inr c \<Rightarrow> Inr (c \<ge> 0))"

text \<open>
  \<^verbatim>\<open>MatrixLike\<close> defines no \<^verbatim>\<open>__ne__\<close>: Python evaluates \<^verbatim>\<open>a != b\<close> through the
  inherited default, which negates the result of \<^verbatim>\<open>__eq__\<close>.
\<close>

definition mat_ne :: "('a \<Rightarrow> 'a \<Rightarrow> bool) \<Rightarrow> 'a matrix \<Rightarrow> 'a matrix \<Rightarrow> error + bool" where
  "mat_ne eq self other =
     (case mat_eq eq self other of Inl e \<Rightarrow> Inl e | Inr r \<Rightarrow> Inr (\<not> r))"

text \<open>
  Modelled from the spec: the named comparison methods \<^verbatim>\<open>equal\<close>,
  \<^verbatim>\<open>not_equal\<close>, \<^verbatim>\<open>lesser\<close>, \<^verbatim>\<open>lesser_equal\<close>, \<^verbatim>\<open>greater\<close> and
  \<^verbatim>\<open>greater_equal\<close> are abstract in the source, documented as "Return
  element-wise" results (their implementations are not part of it). Every
  element-wise operator goes through \<open>matmap\<close> with its own \<open>f\<close> and yields a new
  matrix of the shape of the operands; \<open>new_ident\<close> is the identity of that
  new object.
\<close>

definition mat_elementwise :: "nat \<Rightarrow> ('a \<Rightarrow> 'b \<Rightarrow> 'c) \<Rightarrow> 'a matrix \<Rightarrow> 'b matrix \<Rightarrow> error + 'c matrix" where
  "mat_elementwise new_ident f a b =
     (case matmap f a b of
        Inl e \<Rightarrow> Inl e
      | Inr it \<Rightarrow> (case py_list it of
                    Inl e \<Rightarrow> Inl e
                  | Inr vs \<Rightarrow> Inr \<lparr>ident = new_ident, shape = shape a, items = vs\<rparr>))"

section \<open>The numeric protocols\<close>

text \<open>
  \<^verbatim>\<open>ComplexLike.__sub__\<close> and \<^verbatim>\<open>__rsub__\<close>: the defaults \<^verbatim>\<open>self + -other\<close> and
  \<^verbatim>\<open>other + -self\<close>. Addition and negation are abstract methods, taken as
  parameters; either may raise. The operand is negated first, then added.
\<close>

definition cl_sub :: "('a \<Rightarrow> 'n \<Rightarrow> error + 'c) \<Rightarrow> ('b \<Rightarrow> error + 'n) \<Rightarrow> 'a \<Rightarrow> 'b \<Rightarrow> error + 'c" where
  "cl_sub add neg self other =
     (case neg other of Inl e \<Rightarrow> Inl e | Inr n \<Rightarrow> add self n)"

definition cl_rsub :: "('b \<Rightarrow> 'n \<Rightarrow> error + 'c) \<Rightarrow> ('a \<Rightarrow> error + 'n) \<Rightarrow> 'a \<Rightarrow> 'b \<Rightarrow> error + 'c" where
  "cl_rsub add neg self other =
     (case neg self of Inl e \<Rightarrow> Inl e | Inr n \<Rightarrow> add other n)"

text \<open>\<^verbatim>\<open>ComplexMatrixLike.__sub__\<close> and \<^verbatim>\<open>__rsub__\<close> have the same bodies.\<close>

definition cml_sub :: "('a \<Rightarrow> 'n \<Rightarrow> error + 'c) \<Rightarrow> ('b \<Rightarrow> error + 'n) \<Rightarrow> 'a \<Rightarrow> 'b \<Rightarrow> error + 'c" where
  "cml_sub add neg self other =
     (case neg other of Inl e \<Rightarrow> Inl e | Inr n \<Rightarrow> add self n)"

definition cml_rsub :: "('b \<Rightarrow> 'n \<Rightarrow> error + 'c) \<Rightarrow> ('a \<Rightarrow> error + 'n) \<Rightarrow> 'a \<Rightarrow> 'b \<Rightarrow> error + 'c" where
  "cml_rsub add neg self other =
     (case neg self of Inl e \<Rightarrow> Inl e | Inr n \<Rightarrow> add other n)"







section \<open>Iterators that raise nothing\<close>

lemma range_map_total:
  "(\<And>k. k \<in> set ks \<Longrightarrow> f k = Inr (g k)) \<Longrightarrow> range_map f ks = iter_of (map g ks)"
  by (induction ks) simp_all

lemma py_list_iter_of: "py_list (iter_of xs) = Inr xs"
  by (induction xs) simp_all

lemma py_map2_iter_of:
  "py_map2 f (iter_of xs) (iter_of ys) = iter_of (map2 f xs ys)"
proof (induction xs arbitrary: ys)
  case Nil
  show ?case by simp
next
  case (Cons x xs)
  show ?case by (cases ys) (simp_all add: Cons.IH)
qed

lemma py_all_iter_of: "py_all (iter_of bs) = Inr (list_all id bs)"
  by (induction bs) simp_all

lemma gen_seq_iter_of: "gen_seq (iter_of xs) (iter_of ys) = iter_of (xs @ ys)"
  by (induction xs) simp_all

lemma gen_for_total:
  "(\<And>k. k \<in> set ks \<Longrightarrow> body k = iter_of (g k)) \<Longrightarrow>
   gen_for ks body = iter_of (concat (map g ks))"
  by (induction ks) (simp_all add: gen_seq_iter_of)

lemma reduce_from_iter_of: "reduce_from f acc (iter_of xs) = Inr (foldl f acc xs)"
  by (induction xs arbitrary: acc) simp_all

lemma reduce_range_map_total:
  assumes "0 < n" and "\<And>k. k < n \<Longrightarrow> f k = Inr (g k)"
  shows "reduce add (range_map f [0..<n]) = Inr (foldl add (g 0) (map g [1..<n]))"
proof -
  have "range_map f [0..<n] = iter_of (map g [0..<n])"
    by (rule range_map_total) (simp add: assms)
  moreover have "[0..<n] = 0 # [1..<n]"
    using assms(1) by (simp add: upt_rec)
  ultimately show ?thesis
    by (simp add: reduce_from_iter_of)
qed

section \<open>Well-formed matrices\<close>

lemma getitem_wf:
  "wf_matrix a \<Longrightarrow> k < msize a \<Longrightarrow> getitem a k = Inr (items a ! k)"
  by (simp add: getitem_def wf_matrix_def)

lemma mat_iter_wf:
  assumes "wf_matrix a"
  shows "mat_iter a = iter_of (items a)"
proof -
  have "range_map (getitem a) [0..<msize a] = iter_of (map (\<lambda>k. items a ! k) [0..<msize a])"
    by (rule range_map_total) (simp add: getitem_wf assms)
  moreover have "map (\<lambda>k. items a ! k) [0..<msize a] = items a"
    using assms map_nth [of "items a"] by (simp add: wf_matrix_def)
  ultimately show ?thesis
    by (simp add: mat_iter_def)
qed

lemma shape_ne_iff: "shape_ne u v = (u \<noteq> v)"
  by (cases u, cases v) (auto simp: shape_ne_def shape_eq_def)

lemma row_major_bound:
  fixes i k m n :: nat
  assumes "i < m" "k < n"
  shows "i * n + k < m * n"
proof -
  have "i * n + k < i * n + n" using assms by simp
  also have "\<dots> = Suc i * n" by simp
  also have "\<dots> \<le> m * n" using assms by (intro mult_le_mono1) simp
  finally show ?thesis .
qed

section \<open>Matrix multiplication\<close>

lemma matmul_term_wf:
  assumes "wf_matrix a" "wf_matrix b" "shape a = (m, n)" "shape b = (n, q)"
    and "i < m" "j < q" "k < n"
  shows "matmul_term mul a b n q i j k = Inr (mul (items a ! (i * n + k)) (items b ! (k * q + j)))"
proof -
  have "i * n + k < msize a"
    using assms by (simp add: msize_def row_major_bound)
  moreover have "k * q + j < msize b"
    using assms by (simp add: msize_def row_major_bound)
  ultimately show ?thesis
    using assms by (simp add: matmul_term_def getitem_wf)
qed

lemma matmul_body_wf:
  assumes "wf_matrix a" "wf_matrix b" "shape a = (m, n)" "shape b = (n, q)" "0 < n"
  shows "matmul_body add mul a b =
    iter_of (concat (map (\<lambda>i. map (\<lambda>j.
        foldl add (mul (items a ! (i * n + 0)) (items b ! (0 * q + j)))
              (map (\<lambda>k. mul (items a ! (i * n + k)) (items b ! (k * q + j))) [1..<n]))
        [0..<q]) [0..<m]))"
  (is "_ = iter_of (concat (map (\<lambda>i. map (?d i) [0..<q]) [0..<m]))")
proof -
  have cell: "gen_yield (reduce add (range_map (matmul_term mul a b n q i j) [0..<n]))
      = iter_of [?d i j]" if "i < m" "j < q" for i j
  proof -
    have "reduce add (range_map (matmul_term mul a b n q i j) [0..<n]) = Inr (?d i j)"
      by (rule reduce_range_map_total [OF assms(5)]) (simp add: matmul_term_wf [OF assms(1-4) that])
    then show ?thesis by (simp add: gen_yield_def)
  qed
  have row: "gen_for [0..<q] (\<lambda>j. gen_yield (reduce add (range_map (matmul_term mul a b n q i j) [0..<n])))
      = iter_of (map (?d i) [0..<q])" if "i < m" for i
  proof -
    have "gen_for [0..<q] (\<lambda>j. gen_yield (reduce add (range_map (matmul_term mul a b n q i j) [0..<n])))
      = iter_of (concat (map (\<lambda>j. [?d i j]) [0..<q]))"
      by (rule gen_for_total) (simp add: cell that)
    also have "concat (map (\<lambda>j. [?d i j]) [0..<q]) = map (?d i) [0..<q]"
      by (induction q) simp_all
    finally show ?thesis .
  qed
  have "gen_for [0..<m] (\<lambda>i. gen_for [0..<q] (\<lambda>j.
          gen_yield (reduce add (range_map (matmul_term mul a b n q i j) [0..<n]))))
      = iter_of (concat (map (\<lambda>i. map (?d i) [0..<q]) [0..<m]))"
    by (rule gen_for_total) (simp add: row)
  then show ?thesis
    using assms by (simp add: matmul_body_def)
qed

lemma foldl_add_sum_list:
  fixes z :: "'a::monoid_add"
  shows "foldl (+) z xs = z + sum_list xs"
  by (induction xs arbitrary: z) (simp_all add: add.assoc)

lemma left_fold_is_sum:
  fixes t :: "nat \<Rightarrow> 'a::comm_monoid_add"
  assumes "0 < n"
  shows "foldl (+) (t 0) (map t [1..<n]) = (\<Sum>k<n. t k)"
proof -
  have "foldl (+) (t 0) (map t [1..<n]) = sum_list (map t (0 # [1..<n]))"
    by (simp add: foldl_add_sum_list)
  also have "0 # [1..<n] = [0..<n]"
    using assms by (simp add: upt_rec)
  also have "sum_list (map t [0..<n]) = (\<Sum>k<n. t k)"
    by (simp add: interv_sum_list_conv_sum_set_nat atLeast0LessThan)
  finally show ?thesis .
qed

lemma length_concat_rows:
  "length (concat (map (\<lambda>i. map (d i) [0..<q]) [0..<m])) = m * q"
  by (induction m) simp_all

text \<open>
  C1. For \<open>a\<close> of shape \<open>(m, n)\<close> and \<open>b\<close> of shape \<open>(n, q)\<close> with \<open>n > 0\<close>, the
  iterator of \<open>matmul\<close> yields, row by row over the result shape \<open>(m, q)\<close>, for
  every position \<open>(i, j)\<close> the products \<open>a[i*n + k] * b[k*q + j]\<close> folded from the
  left with the addition of the elements, the accumulator starting at the term
  for \<open>k = 0\<close>: no zero is used. Where the addition is that of a commutative
  monoid the fold is the sum over \<open>k < n\<close>. The product of \<open>[[1,2],[3,4]]\<close> and
  \<open>[[5,6],[7,8]]\<close> is \<open>[[19,22],[43,50]]\<close>.
\<close>

theorem matmul_row_major_left_fold:
  fixes add :: "'c \<Rightarrow> 'c \<Rightarrow> 'c" and t :: "nat \<Rightarrow> 's::comm_monoid_add"
  assumes "wf_matrix a" "wf_matrix b" "shape a = (m, n)" "shape b = (n, q)" "0 < n"
  shows "matmul add mul a b =
      Inr (iter_of (concat (map (\<lambda>i. map (\<lambda>j.
        foldl add (mul (items a ! (i * n + 0)) (items b ! (0 * q + j)))
              (map (\<lambda>k. mul (items a ! (i * n + k)) (items b ! (k * q + j))) [1..<n]))
        [0..<q]) [0..<m])))
    \<and> foldl (+) (t 0) (map t [1..<n]) = (\<Sum>k<n. t k)
    \<and> matmul (+) (*) \<lparr>ident = 0, shape = (2, 2), items = [1, 2, 3, 4 :: int]\<rparr>
                      \<lparr>ident = 1, shape = (2, 2), items = [5, 6, 7, 8]\<rparr>
        = Inr (iter_of [19, 22, 43, 50])"
proof (intro conjI)
  show "matmul add mul a b =
      Inr (iter_of (concat (map (\<lambda>i. map (\<lambda>j.
        foldl add (mul (items a ! (i * n + 0)) (items b ! (0 * q + j)))
              (map (\<lambda>k. mul (items a ! (i * n + k)) (items b ! (k * q + j))) [1..<n]))
        [0..<q]) [0..<m])))"
    by (simp only: matmul_def matmul_body_wf [OF assms])
  show "foldl (+) (t 0) (map t [1..<n]) = (\<Sum>k<n. t k)"
    by (rule left_fold_is_sum [OF assms(5)])
  show "matmul (+) (*) \<lparr>ident = 0, shape = (2, 2), items = [1, 2, 3, 4 :: int]\<rparr>
                      \<lparr>ident = 1, shape = (2, 2), items = [5, 6, 7, 8]\<rparr>
        = Inr (iter_of [19, 22, 43, 50])"
    by (simp add: matmul_def matmul_body_def matmul_term_def getitem_def msize_def
        gen_yield_def upt_rec)
qed

theorem matmul_row_major_left_fold_witness:
  "wf_matrix \<lparr>ident = 0, shape = (2, 3), items = [1, 2, 3, 4, 5, 6 :: int]\<rparr>
   \<and> wf_matrix \<lparr>ident = 1, shape = (3, 1), items = [1, 0, 2 :: int]\<rparr>
   \<and> (0::nat) < 3
   \<and> matmul (+) (*) \<lparr>ident = 0, shape = (2, 3), items = [1, 2, 3, 4, 5, 6 :: int]\<rparr>
                      \<lparr>ident = 1, shape = (3, 1), items = [1, 0, 2 :: int]\<rparr>
       = Inr (iter_of [7, 16])"
proof -
  let ?a = "\<lparr>ident = 0, shape = (2, 3), items = [1, 2, 3, 4, 5, 6 :: int]\<rparr>"
  let ?b = "\<lparr>ident = 1, shape = (3, 1), items = [1, 0, 2 :: int]\<rparr>"
  have wa: "wf_matrix ?a" and wb: "wf_matrix ?b"
    by (simp_all add: wf_matrix_def msize_def)
  have sa: "shape ?a = (2, 3)" and sb: "shape ?b = (3, 1)"
    by simp_all
  have n: "(0::nat) < 3" by simp
  note fold = matmul_row_major_left_fold [OF wa wb sa sb n, of "(+)" "(*)" "\<lambda>k. 0 :: nat", THEN conjunct1]
  have "matmul (+) (*) ?a ?b = Inr (iter_of [7, 16])"
    using fold by (simp add: upt_rec)
  with wa wb n show ?thesis by simp
qed

lemma matmul_body_mismatch:
  assumes "shape a = (m, n)" "shape b = (p, q)" "n \<noteq> p"
  shows "matmul_body add mul a b = Raise (ValueError (ShapeMismatch (m, n) (p, q)))"
  using assms by (simp add: matmul_body_def)

lemma matmul_body_degenerate:
  assumes "shape a = (m, 0)" "shape b = (0, q)"
  shows "matmul_body add mul a b = Raise (ValueError DegenerateDimension)"
  using assms by (simp add: matmul_body_def)

text \<open>
  C2. For \<open>a\<close> of shape \<open>(m, n)\<close> and \<open>b\<close> of shape \<open>(p, q)\<close>, running the
  iterator of \<open>matmul\<close> raises the \<^verbatim>\<open>ValueError\<close> of a shape mismatch exactly
  when \<open>n \<noteq> p\<close>; when \<open>n = p\<close> it raises the \<^verbatim>\<open>ValueError\<close> of a zero inner
  dimension exactly when \<open>n = 0\<close>; in every other case nothing is raised and
  the product is produced: the \<open>m * q\<close> elements, in row-major order, that
  are the left folds of the products \<open>a[i*n + k] * b[k*q + j]\<close> over \<open>k\<close>.
\<close>

theorem matmul_raises_exactly:
  assumes "wf_matrix a" "wf_matrix b" "shape a = (m, n)" "shape b = (p, q)"
  shows "\<exists>g. matmul add mul a b = Inr g
    \<and> (py_list g = Inl (ValueError (ShapeMismatch (m, n) (p, q))) \<longleftrightarrow> n \<noteq> p)
    \<and> (n = p \<longrightarrow> (py_list g = Inl (ValueError DegenerateDimension) \<longleftrightarrow> n = 0))
    \<and> (n = p \<and> n \<noteq> 0 \<longrightarrow>
         py_list g = Inr (concat (map (\<lambda>i. map (\<lambda>j.
            foldl add (mul (items a ! (i * n + 0)) (items b ! (0 * q + j)))
              (map (\<lambda>k. mul (items a ! (i * n + k)) (items b ! (k * q + j))) [1..<n]))
            [0..<q]) [0..<m]))
         \<and> length (concat (map (\<lambda>i. map (\<lambda>j.
            foldl add (mul (items a ! (i * n + 0)) (items b ! (0 * q + j)))
              (map (\<lambda>k. mul (items a ! (i * n + k)) (items b ! (k * q + j))) [1..<n]))
            [0..<q]) [0..<m])) = m * q)"
proof -
  consider (mismatch) "n \<noteq> p" | (degenerate) "n = p" "n = 0" | (product) "n = p" "0 < n"
    by auto
  then have "(py_list (matmul_body add mul a b) = Inl (ValueError (ShapeMismatch (m, n) (p, q))) \<longleftrightarrow> n \<noteq> p)
    \<and> (n = p \<longrightarrow> (py_list (matmul_body add mul a b) = Inl (ValueError DegenerateDimension) \<longleftrightarrow> n = 0))
    \<and> (n = p \<and> n \<noteq> 0 \<longrightarrow>
         py_list (matmul_body add mul a b) = Inr (concat (map (\<lambda>i. map (\<lambda>j.
            foldl add (mul (items a ! (i * n + 0)) (items b ! (0 * q + j)))
              (map (\<lambda>k. mul (items a ! (i * n + k)) (items b ! (k * q + j))) [1..<n]))
            [0..<q]) [0..<m]))
         \<and> length (concat (map (\<lambda>i. map (\<lambda>j.
            foldl add (mul (items a ! (i * n + 0)) (items b ! (0 * q + j)))
              (map (\<lambda>k. mul (items a ! (i * n + k)) (items b ! (k * q + j))) [1..<n]))
            [0..<q]) [0..<m])) = m * q)"
  proof cases
    case mismatch
    then show ?thesis
      by (simp add: matmul_body_mismatch [OF assms(3,4)])
  next
    case degenerate
    then show ?thesis
      using assms(3,4) by (simp add: matmul_body_degenerate)
  next
    case product
    from assms(4) product(1) have sb: "shape b = (n, q)" by simp
    have "py_list (matmul_body add mul a b) = Inr (concat (map (\<lambda>i. map (\<lambda>j.
            foldl add (mul (items a ! (i * n + 0)) (items b ! (0 * q + j)))
              (map (\<lambda>k. mul (items a ! (i * n + k)) (items b ! (k * q + j))) [1..<n]))
            [0..<q]) [0..<m]))"
      by (simp only: matmul_body_wf [OF assms(1,2,3) sb product(2)] py_list_iter_of)
    moreover have "length (concat (map (\<lambda>i. map (\<lambda>j.
            foldl add (mul (items a ! (i * n + 0)) (items b ! (0 * q + j)))
              (map (\<lambda>k. mul (items a ! (i * n + k)) (items b ! (k * q + j))) [1..<n]))
            [0..<q]) [0..<m])) = m * q"
      by (rule length_concat_rows)
    ultimately show ?thesis
      using product by simp
  qed
  then show ?thesis
    by (simp add: matmul_def)
qed

theorem matmul_raises_exactly_witness:
  "wf_matrix \<lparr>ident = 0, shape = (2, 0), items = ([] :: int list)\<rparr>
   \<and> wf_matrix \<lparr>ident = 1, shape = (0, 3), items = ([] :: int list)\<rparr>
   \<and> wf_matrix \<lparr>ident = 2, shape = (1, 2), items = [1, 2 :: int]\<rparr>
   \<and> wf_matrix \<lparr>ident = 3, shape = (2, 1), items = [3, 4 :: int]\<rparr>
   \<and> (\<exists>g. matmul (+) (*) \<lparr>ident = 0, shape = (2, 0), items = ([] :: int list)\<rparr>
                           \<lparr>ident = 1, shape = (0, 3), items = ([] :: int list)\<rparr> = Inr g
          \<and> py_list g = Inl (ValueError DegenerateDimension))
   \<and> (\<exists>g. matmul (+) (*) \<lparr>ident = 2, shape = (1, 2), items = [1, 2 :: int]\<rparr>
                           \<lparr>ident = 2, shape = (1, 2), items = [1, 2 :: int]\<rparr> = Inr g
          \<and> py_list g = Inl (ValueError (ShapeMismatch (1, 2) (1, 2))))
   \<and> (\<exists>g. matmul (+) (*) \<lparr>ident = 2, shape = (1, 2), items = [1, 2 :: int]\<rparr>
                           \<lparr>ident = 3, shape = (2, 1), items = [3, 4 :: int]\<rparr> = Inr g
          \<and> py_list g = Inr [11])"
proof -
  let ?a = "\<lparr>ident = 0, shape = (2, 0), items = ([] :: int list)\<rparr>"
  let ?b = "\<lparr>ident = 1, shape = (0, 3), items = ([] :: int list)\<rparr>"
  let ?c = "\<lparr>ident = 2, shape = (1, 2), items = [1, 2 :: int]\<rparr>"
  let ?d = "\<lparr>ident = 3, shape = (2, 1), items = [3, 4 :: int]\<rparr>"
  have wa: "wf_matrix ?a" and wb: "wf_matrix ?b" and wc: "wf_matrix ?c" and wd: "wf_matrix ?d"
    by (simp_all add: wf_matrix_def msize_def)
  have sa: "shape ?a = (2, 0)" and sb: "shape ?b = (0, 3)"
    and sc: "shape ?c = (1, 2)" and sd: "shape ?d = (2, 1)"
    by simp_all
  from matmul_raises_exactly [OF wa wb sa sb, of "(+)" "(*)"]
  obtain g where "matmul (+) (*) ?a ?b = Inr g"
    and "(0::nat) = 0 \<longrightarrow> (py_list g = Inl (ValueError DegenerateDimension) \<longleftrightarrow> (0::nat) = 0)"
    by blast
  then have ab: "\<exists>g. matmul (+) (*) ?a ?b = Inr g \<and> py_list g = Inl (ValueError DegenerateDimension)"
    by blast
  from matmul_raises_exactly [OF wc wc sc sc, of "(+)" "(*)"]
  obtain g where "matmul (+) (*) ?c ?c = Inr g"
    and "py_list g = Inl (ValueError (ShapeMismatch (1, 2) (1, 2))) \<longleftrightarrow> (2::nat) \<noteq> 1"
    by blast
  then have cc: "\<exists>g. matmul (+) (*) ?c ?c = Inr g
      \<and> py_list g = Inl (ValueError (ShapeMismatch (1, 2) (1, 2)))"
    by simp
  from matmul_raises_exactly [OF wc wd sc sd, of "(+)" "(*)"]
  obtain g where g: "matmul (+) (*) ?c ?d = Inr g"
    and "(2::nat) = 2 \<and> (2::nat) \<noteq> 0 \<longrightarrow>
      py_list g = Inr (concat (map (\<lambda>i. map (\<lambda>j.
            foldl (+) (items ?c ! (i * 2 + 0) * items ?d ! (0 * 1 + j))
              (map (\<lambda>k. items ?c ! (i * 2 + k) * items ?d ! (k * 1 + j)) [1..<2]))
            [0..<1]) [0..<1]))"
    by blast
  then have "py_list g = Inr [11]"
    by (simp add: upt_rec)
  with g have cd: "\<exists>g. matmul (+) (*) ?c ?d = Inr g \<and> py_list g = Inr [11]"
    by blast
  from wa wb wc wd ab cc cd show ?thesis by blast
qed

text \<open>
  C9. The call \<open>matmul a b\<close> never raises: it returns the generator, and the
  \<^verbatim>\<open>ValueError\<close> of unequal inner dimensions or of a zero inner dimension is
  raised by the first advance of that generator. \<open>matmap\<close> raises its
  \<^verbatim>\<open>ValueError\<close> when it is called.
\<close>

theorem matmul_checks_deferred:
  "(\<exists>g. matmul add mul a b = Inr g)
   \<and> (\<forall>m n p q. shape a = (m, n) \<and> shape b = (p, q) \<and> n \<noteq> p \<longrightarrow>
        (\<exists>g. matmul add mul a b = Inr g
           \<and> fst (py_next g) = Raised (ValueError (ShapeMismatch (m, n) (p, q)))))
   \<and> (\<forall>m q. shape a = (m, 0) \<and> shape b = (0, q) \<longrightarrow>
        (\<exists>g. matmul add mul a b = Inr g
           \<and> fst (py_next g) = Raised (ValueError DegenerateDimension)))
   \<and> (shape a \<noteq> shape b \<longrightarrow>
        matmap f a b = Inl (ValueError (ShapeMismatch (shape a) (shape b))))"
proof (intro conjI allI impI)
  show "\<exists>g. matmul add mul a b = Inr g"
    by (simp add: matmul_def)
next
  fix m n p q
  assume "shape a = (m, n) \<and> shape b = (p, q) \<and> n \<noteq> p"
  then have "matmul_body add mul a b = Raise (ValueError (ShapeMismatch (m, n) (p, q)))"
    by (simp add: matmul_body_mismatch)
  then show "\<exists>g. matmul add mul a b = Inr g
      \<and> fst (py_next g) = Raised (ValueError (ShapeMismatch (m, n) (p, q)))"
    by (simp add: matmul_def)
next
  fix m q
  assume "shape a = (m, 0) \<and> shape b = (0, q)"
  then have "matmul_body add mul a b = Raise (ValueError DegenerateDimension)"
    by (simp add: matmul_body_degenerate)
  then show "\<exists>g. matmul add mul a b = Inr g
      \<and> fst (py_next g) = Raised (ValueError DegenerateDimension)"
    by (simp add: matmul_def)
next
  assume "shape a \<noteq> shape b"
  then show "matmap f a b = Inl (ValueError (ShapeMismatch (shape a) (shape b)))"
    by (simp add: matmap_def shape_ne_iff)
qed

theorem matmul_checks_deferred_witness:
  "(\<exists>g. matmul (+) (*) \<lparr>ident = 0, shape = (2, 3), items = [1, 2, 3, 4, 5, 6 :: int]\<rparr>
                         \<lparr>ident = 1, shape = (2, 2), items = [1, 2, 3, 4 :: int]\<rparr> = Inr g
        \<and> fst (py_next g) = Raised (ValueError (ShapeMismatch (2, 3) (2, 2))))
   \<and> (\<exists>g. matmul (+) (*) \<lparr>ident = 0, shape = (2, 0), items = ([] :: int list)\<rparr>
                         \<lparr>ident = 1, shape = (0, 3), items = ([] :: int list)\<rparr> = Inr g
        \<and> fst (py_next g) = Raised (ValueError DegenerateDimension))
   \<and> matmap (+) \<lparr>ident = 0, shape = (2, 3), items = [1, 2, 3, 4, 5, 6 :: int]\<rparr>
                 \<lparr>ident = 1, shape = (2, 2), items = [1, 2, 3, 4 :: int]\<rparr>
       = Inl (ValueError (ShapeMismatch (2, 3) (2, 2)))"
proof (intro conjI)
  let ?a = "\<lparr>ident = 0, shape = (2, 3), items = [1, 2, 3, 4, 5, 6 :: int]\<rparr>"
  let ?b = "\<lparr>ident = 1, shape = (2, 2), items = [1, 2, 3, 4 :: int]\<rparr>"
  let ?c = "\<lparr>ident = 0, shape = (2, 0), items = ([] :: int list)\<rparr>"
  let ?d = "\<lparr>ident = 1, shape = (0, 3), items = ([] :: int list)\<rparr>"
  note ab = matmul_checks_deferred [of "(+)" "(*)" ?a ?b "(+)"]
  note cd = matmul_checks_deferred [of "(+)" "(*)" ?c ?d "(+)"]
  have "shape ?a = (2, 3) \<and> shape ?b = (2, 2) \<and> (3::nat) \<noteq> 2" by simp
  with ab show "\<exists>g. matmul (+) (*) ?a ?b = Inr g
      \<and> fst (py_next g) = Raised (ValueError (ShapeMismatch (2, 3) (2, 2)))"
    by blast
  have "shape ?c = (2, 0) \<and> shape ?d = (0, 3)" by simp
  with cd show "\<exists>g. matmul (+) (*) ?c ?d = Inr g
      \<and> fst (py_next g) = Raised (ValueError DegenerateDimension)"
    by blast
  have "shape ?a \<noteq> shape ?b" by simp
  with ab have "matmap (+) ?a ?b = Inl (ValueError (ShapeMismatch (shape ?a) (shape ?b)))"
    by blast
  then show "matmap (+) ?a ?b = Inl (ValueError (ShapeMismatch (2, 3) (2, 2)))"
    by simp
qed

section \<open>The element-wise combinator\<close>

lemma map2_nth:
  assumes "length xs = length ys"
  shows "map2 f xs ys = map (\<lambda>k. f (xs ! k) (ys ! k)) [0..<length xs]"
  using assms by (intro nth_equalityI) simp_all

lemma matmap_wf:
  assumes "wf_matrix a" "wf_matrix b" "shape a = shape b"
  shows "matmap f a b = Inr (iter_of (map2 f (items a) (items b)))"
  using assms by (simp add: matmap_def shape_ne_iff mat_iter_wf py_map2_iter_of Let_def)

lemma length_items_wf: "wf_matrix a \<Longrightarrow> length (items a) = msize a"
  by (simp add: wf_matrix_def)

lemma length_items_eq:
  assumes "wf_matrix a" "wf_matrix b" "shape a = shape b"
  shows "length (items a) = length (items b)"
  using assms by (simp add: wf_matrix_def msize_def)

text \<open>
  C3. \<open>matmap f a b\<close> raises the \<^verbatim>\<open>ValueError\<close> of a shape mismatch exactly when
  the shapes of \<open>a\<close> and \<open>b\<close> differ, and raises nothing else; for operands of
  one shape it returns the iterator of \<open>f (a[k]) (b[k])\<close> for \<open>k\<close> from \<open>0\<close> to
  the size of \<open>a\<close>, in row-major order. Operands of shapes \<open>(2, 3)\<close> and
  \<open>(3, 2)\<close> have the same size, and \<open>matmap\<close> fails on them.
\<close>

theorem matmap_shape_checked:
  "(matmap f a b = Inl (ValueError (ShapeMismatch (shape a) (shape b))) \<longleftrightarrow> shape a \<noteq> shape b)
   \<and> (isl (matmap f a b) \<longleftrightarrow> shape a \<noteq> shape b)
   \<and> (wf_matrix a \<and> wf_matrix b \<and> shape a = shape b \<longrightarrow>
        matmap f a b = Inr (iter_of (map (\<lambda>k. f (items a ! k) (items b ! k)) [0..<msize a])))
   \<and> (shape a = (2, 3) \<and> shape b = (3, 2) \<longrightarrow>
        msize a = msize b \<and> matmap f a b = Inl (ValueError (ShapeMismatch (2, 3) (3, 2))))"
proof (intro conjI impI)
  show "matmap f a b = Inl (ValueError (ShapeMismatch (shape a) (shape b))) \<longleftrightarrow> shape a \<noteq> shape b"
    by (simp add: matmap_def shape_ne_iff Let_def)
  show "isl (matmap f a b) \<longleftrightarrow> shape a \<noteq> shape b"
    by (simp add: matmap_def shape_ne_iff Let_def)
next
  assume h: "wf_matrix a \<and> wf_matrix b \<and> shape a = shape b"
  then have "map2 f (items a) (items b) = map (\<lambda>k. f (items a ! k) (items b ! k)) [0..<msize a]"
    using map2_nth [of "items a" "items b" f] length_items_eq [of a b] length_items_wf [of a]
    by simp
  with h show "matmap f a b = Inr (iter_of (map (\<lambda>k. f (items a ! k) (items b ! k)) [0..<msize a]))"
    by (simp add: matmap_wf)
next
  assume h: "shape a = (2, 3) \<and> shape b = (3, 2)"
  then show "msize a = msize b"
    by (simp add: msize_def)
  from h show "matmap f a b = Inl (ValueError (ShapeMismatch (2, 3) (3, 2)))"
    by (simp add: matmap_def shape_ne_iff Let_def)
qed

theorem matmap_shape_checked_witness:
  "matmap (+) \<lparr>ident = 0, shape = (2, 3), items = [1, 2, 3, 4, 5, 6 :: int]\<rparr>
              \<lparr>ident = 1, shape = (3, 2), items = [1, 2, 3, 4, 5, 6 :: int]\<rparr>
     = Inl (ValueError (ShapeMismatch (2, 3) (3, 2)))
   \<and> wf_matrix \<lparr>ident = 0, shape = (2, 2), items = [1, 2, 3, 4 :: int]\<rparr>
   \<and> wf_matrix \<lparr>ident = 1, shape = (2, 2), items = [10, 20, 30, 40 :: int]\<rparr>
   \<and> matmap (+) \<lparr>ident = 0, shape = (2, 2), items = [1, 2, 3, 4 :: int]\<rparr>
                 \<lparr>ident = 1, shape = (2, 2), items = [10, 20, 30, 40 :: int]\<rparr>
       = Inr (iter_of [11, 22, 33, 44])"
proof -
  let ?a = "\<lparr>ident = 0, shape = (2, 3), items = [1, 2, 3, 4, 5, 6 :: int]\<rparr>"
  let ?b = "\<lparr>ident = 1, shape = (3, 2), items = [1, 2, 3, 4, 5, 6 :: int]\<rparr>"
  let ?c = "\<lparr>ident = 0, shape = (2, 2), items = [1, 2, 3, 4 :: int]\<rparr>"
  let ?d = "\<lparr>ident = 1, shape = (2, 2), items = [10, 20, 30, 40 :: int]\<rparr>"
  have "shape ?a = (2, 3) \<and> shape ?b = (3, 2)" by simp
  with matmap_shape_checked [of "(+)" ?a ?b]
  have ab: "matmap (+) ?a ?b = Inl (ValueError (ShapeMismatch (2, 3) (3, 2)))"
    by blast
  have wf: "wf_matrix ?c \<and> wf_matrix ?d \<and> shape ?c = shape ?d"
    by (simp add: wf_matrix_def msize_def)
  with matmap_shape_checked [of "(+)" ?c ?d]
  have "matmap (+) ?c ?d = Inr (iter_of (map (\<lambda>k. items ?c ! k + items ?d ! k) [0..<msize ?c]))"
    by blast
  then have cd: "matmap (+) ?c ?d = Inr (iter_of [11, 22, 33, 44])"
    by (simp add: msize_def upt_rec)
  from ab cd wf show ?thesis by blast
qed

section \<open>Lexicographic comparison\<close>

lemma matcmp_loop_iter_of:
  "matcmp_loop lt gt (iter_of ps) =
     Inr (case find (\<lambda>(x, y). lt x y \<or> gt x y) ps of
            None \<Rightarrow> 0
          | Some (x, y) \<Rightarrow> if lt x y then - 1 else 1)"
proof (induction ps)
  case Nil
  show ?case by simp
next
  case (Cons p ps)
  obtain x y where p: "p = (x, y)" by (cases p)
  show ?case by (simp add: p Cons.IH)
qed

lemma matcmp_wf:
  assumes "wf_matrix a" "wf_matrix b" "shape a = shape b"
  shows "matcmp lt gt a b = matcmp_loop lt gt (iter_of (zip (items a) (items b)))"
proof -
  have "py_zip (iter_of (items a)) (iter_of (items b)) = iter_of (zip (items a) (items b))"
    by (simp add: py_zip_def py_map2_iter_of)
  then show ?thesis
    using assms by (simp add: matcmp_def shape_ne_iff mat_iter_wf Let_def)
qed

text \<open>The first pair that decides the comparison, by index.\<close>

lemma find_decisive_Some:
  assumes "length xs = length ys"
  shows "(\<exists>x y. find (\<lambda>(x, y). lt x y \<or> gt x y) (zip xs ys) = Some (x, y) \<and> P x y) \<longleftrightarrow>
     (\<exists>k<length xs. (lt (xs ! k) (ys ! k) \<or> gt (xs ! k) (ys ! k)) \<and> P (xs ! k) (ys ! k)
        \<and> (\<forall>j<k. \<not> lt (xs ! j) (ys ! j) \<and> \<not> gt (xs ! j) (ys ! j)))"
  (is "?L \<longleftrightarrow> ?R")
proof
  assume ?L
  then obtain x y where f: "find (\<lambda>(x, y). lt x y \<or> gt x y) (zip xs ys) = Some (x, y)" and p: "P x y"
    by blast
  from f obtain k where k: "k < length (zip xs ys)" "zip xs ys ! k = (x, y)"
      "lt x y \<or> gt x y"
      "\<forall>j<k. \<not> (case zip xs ys ! j of (x, y) \<Rightarrow> lt x y \<or> gt x y)"
    unfolding find_Some_iff by auto
  from k(1) assms have kl: "k < length xs" by simp
  with k(2) assms have xy: "x = xs ! k" "y = ys ! k" by simp_all
  have "\<forall>j<k. \<not> lt (xs ! j) (ys ! j) \<and> \<not> gt (xs ! j) (ys ! j)"
  proof (intro allI impI)
    fix j assume "j < k"
    with k(4) kl assms show "\<not> lt (xs ! j) (ys ! j) \<and> \<not> gt (xs ! j) (ys ! j)"
      by (auto dest!: spec [of _ j])
  qed
  with kl k(3) p xy show ?R by blast
next
  assume ?R
  then obtain k where k: "k < length xs" "lt (xs ! k) (ys ! k) \<or> gt (xs ! k) (ys ! k)"
      "P (xs ! k) (ys ! k)" "\<forall>j<k. \<not> lt (xs ! j) (ys ! j) \<and> \<not> gt (xs ! j) (ys ! j)"
    by blast
  have "find (\<lambda>(x, y). lt x y \<or> gt x y) (zip xs ys) = Some (xs ! k, ys ! k)"
    unfolding find_Some_iff
  proof (intro exI [of _ k] conjI allI impI)
    show "k < length (zip xs ys)" using k(1) assms by simp
    show "case zip xs ys ! k of (x, y) \<Rightarrow> lt x y \<or> gt x y" using k(1,2) assms by simp
    show "(xs ! k, ys ! k) = zip xs ys ! k" using k(1) assms by simp
    fix j assume "j < k"
    with k(1,4) assms show "\<not> (case zip xs ys ! j of (x, y) \<Rightarrow> lt x y \<or> gt x y)" by simp
  qed
  with k(3) show ?L by blast
qed

lemma find_decisive_None:
  assumes "length xs = length ys"
  shows "find (\<lambda>(x, y). lt x y \<or> gt x y) (zip xs ys) = None \<longleftrightarrow>
     (\<forall>k<length xs. \<not> lt (xs ! k) (ys ! k) \<and> \<not> gt (xs ! k) (ys ! k))"
  using assms by (auto simp: find_None_iff set_zip)

lemma matcmp_wf_find:
  assumes "wf_matrix a" "wf_matrix b" "shape a = shape b"
  shows "matcmp lt gt a b =
     Inr (case find (\<lambda>(x, y). lt x y \<or> gt x y) (zip (items a) (items b)) of
            None \<Rightarrow> 0
          | Some (x, y) \<Rightarrow> if lt x y then - 1 else 1)"
  by (simp only: matcmp_wf [OF assms] matcmp_loop_iter_of)

lemma decided_less:
  "(case r of None \<Rightarrow> 0 | Some (x, y) \<Rightarrow> if lt x y then - 1 else 1) = (- 1 :: int)
     \<longleftrightarrow> (\<exists>x y. r = Some (x, y) \<and> lt x y)"
  by (auto split: option.splits)

lemma decided_greater:
  "(case r of None \<Rightarrow> 0 | Some (x, y) \<Rightarrow> if lt x y then - 1 else 1) = (1 :: int)
     \<longleftrightarrow> (\<exists>x y. r = Some (x, y) \<and> \<not> lt x y)"
  by (auto split: option.splits)

lemma decided_equal:
  "(case r of None \<Rightarrow> 0 | Some (x, y) \<Rightarrow> if lt x y then - 1 else 1) = (0 :: int)
     \<longleftrightarrow> r = None"
  by (auto split: option.splits)

lemma decided_range:
  "(case r of None \<Rightarrow> 0 | Some (x, y) \<Rightarrow> if lt x y then - 1 else 1) \<in> {- 1, 0, 1 :: int}"
  by (auto split: option.splits)

lemma matcmp_less_iff:
  assumes "wf_matrix a" "wf_matrix b" "shape a = shape b"
  shows "matcmp lt gt a b = Inr (- 1) \<longleftrightarrow>
     (\<exists>k<msize a. lt (items a ! k) (items b ! k)
        \<and> (\<forall>j<k. \<not> lt (items a ! j) (items b ! j) \<and> \<not> gt (items a ! j) (items b ! j)))"
proof -
  have len: "length (items a) = length (items b)"
    by (rule length_items_eq [OF assms])
  have "matcmp lt gt a b = Inr (- 1) \<longleftrightarrow>
      (\<exists>x y. find (\<lambda>(x, y). lt x y \<or> gt x y) (zip (items a) (items b)) = Some (x, y) \<and> lt x y)"
    by (simp only: matcmp_wf_find [OF assms] sum.inject decided_less)
  also have "\<dots> \<longleftrightarrow> (\<exists>k<length (items a).
        (lt (items a ! k) (items b ! k) \<or> gt (items a ! k) (items b ! k))
        \<and> lt (items a ! k) (items b ! k)
        \<and> (\<forall>j<k. \<not> lt (items a ! j) (items b ! j) \<and> \<not> gt (items a ! j) (items b ! j)))"
    by (rule find_decisive_Some [OF len])
  also have "\<dots> \<longleftrightarrow> (\<exists>k<msize a. lt (items a ! k) (items b ! k)
        \<and> (\<forall>j<k. \<not> lt (items a ! j) (items b ! j) \<and> \<not> gt (items a ! j) (items b ! j)))"
    unfolding length_items_wf [OF assms(1)] by blast
  finally show ?thesis .
qed

lemma matcmp_greater_iff:
  assumes "wf_matrix a" "wf_matrix b" "shape a = shape b"
  shows "matcmp lt gt a b = Inr 1 \<longleftrightarrow>
     (\<exists>k<msize a. \<not> lt (items a ! k) (items b ! k) \<and> gt (items a ! k) (items b ! k)
        \<and> (\<forall>j<k. \<not> lt (items a ! j) (items b ! j) \<and> \<not> gt (items a ! j) (items b ! j)))"
proof -
  have len: "length (items a) = length (items b)"
    by (rule length_items_eq [OF assms])
  have "matcmp lt gt a b = Inr 1 \<longleftrightarrow>
      (\<exists>x y. find (\<lambda>(x, y). lt x y \<or> gt x y) (zip (items a) (items b)) = Some (x, y) \<and> \<not> lt x y)"
    by (simp only: matcmp_wf_find [OF assms] sum.inject decided_greater)
  also have "\<dots> \<longleftrightarrow> (\<exists>k<length (items a).
        (lt (items a ! k) (items b ! k) \<or> gt (items a ! k) (items b ! k))
        \<and> \<not> lt (items a ! k) (items b ! k)
        \<and> (\<forall>j<k. \<not> lt (items a ! j) (items b ! j) \<and> \<not> gt (items a ! j) (items b ! j)))"
    by (rule find_decisive_Some [OF len])
  also have "\<dots> \<longleftrightarrow> (\<exists>k<msize a. \<not> lt (items a ! k) (items b ! k) \<and> gt (items a ! k) (items b ! k)
        \<and> (\<forall>j<k. \<not> lt (items a ! j) (items b ! j) \<and> \<not> gt (items a ! j) (items b ! j)))"
    unfolding length_items_wf [OF assms(1)] by blast
  finally show ?thesis .
qed

lemma matcmp_equal_iff:
  assumes "wf_matrix a" "wf_matrix b" "shape a = shape b"
  shows "matcmp lt gt a b = Inr 0 \<longleftrightarrow>
     (\<forall>k<msize a. \<not> lt (items a ! k) (items b ! k) \<and> \<not> gt (items a ! k) (items b ! k))"
proof -
  have len: "length (items a) = length (items b)"
    by (rule length_items_eq [OF assms])
  have "matcmp lt gt a b = Inr 0 \<longleftrightarrow>
      find (\<lambda>(x, y). lt x y \<or> gt x y) (zip (items a) (items b)) = None"
    by (simp only: matcmp_wf_find [OF assms] sum.inject decided_equal)
  also have "\<dots> \<longleftrightarrow> (\<forall>k<length (items a).
        \<not> lt (items a ! k) (items b ! k) \<and> \<not> gt (items a ! k) (items b ! k))"
    by (rule find_decisive_None [OF len])
  finally show ?thesis
    unfolding length_items_wf [OF assms(1)] .
qed

lemma matcmp_range:
  assumes "wf_matrix a" "wf_matrix b" "shape a = shape b"
  shows "matcmp lt gt a b = Inr (- 1) \<or> matcmp lt gt a b = Inr 0 \<or> matcmp lt gt a b = Inr 1"
  using decided_range [where r = "find (\<lambda>(x, y). lt x y \<or> gt x y) (zip (items a) (items b))" and lt = lt]
  by (auto simp: matcmp_wf_find [OF assms])

lemma matcmp_mismatch:
  "shape c \<noteq> shape d \<Longrightarrow> matcmp lt gt c d = Inl (ValueError (ShapeMismatch (shape c) (shape d)))"
  by (simp add: matcmp_def shape_ne_iff Let_def)

text \<open>
  C4. For \<open>a\<close> and \<open>b\<close> of one shape, \<open>matcmp\<close> walks the pairs \<open>(a[k], b[k])\<close>
  in row-major order up to the first one with \<open>a[k] < b[k]\<close> or \<open>a[k] > b[k]\<close>
  (tested in this order): it returns \<open>-1\<close> when that pair has \<open>a[k] < b[k]\<close>,
  \<open>1\<close> when it has \<open>a[k] > b[k]\<close>, and \<open>0\<close> when there is no such pair. For
  operands of different shapes it raises the \<^verbatim>\<open>ValueError\<close> of a shape
  mismatch. The operators \<open><\<close>, \<open>\<le>\<close>, \<open>>\<close>, \<open>\<ge>\<close> of matrices are the tests
  \<open>< 0\<close>, \<open>\<le> 0\<close>, \<open>> 0\<close>, \<open>\<ge> 0\<close> of the result of \<open>matcmp\<close>.
\<close>

theorem matcmp_first_decisive_pair:
  assumes "wf_matrix a" "wf_matrix b" "shape a = shape b"
  shows "(matcmp lt gt a b = Inr (- 1) \<longleftrightarrow>
        (\<exists>k<msize a. lt (items a ! k) (items b ! k)
           \<and> (\<forall>j<k. \<not> lt (items a ! j) (items b ! j) \<and> \<not> gt (items a ! j) (items b ! j))))
    \<and> (matcmp lt gt a b = Inr 1 \<longleftrightarrow>
        (\<exists>k<msize a. \<not> lt (items a ! k) (items b ! k) \<and> gt (items a ! k) (items b ! k)
           \<and> (\<forall>j<k. \<not> lt (items a ! j) (items b ! j) \<and> \<not> gt (items a ! j) (items b ! j))))
    \<and> (matcmp lt gt a b = Inr 0 \<longleftrightarrow>
        (\<forall>k<msize a. \<not> lt (items a ! k) (items b ! k) \<and> \<not> gt (items a ! k) (items b ! k)))
    \<and> (matcmp lt gt a b = Inr (- 1) \<or> matcmp lt gt a b = Inr 0 \<or> matcmp lt gt a b = Inr 1)
    \<and> (\<forall>c d. shape c \<noteq> shape d \<longrightarrow>
          matcmp lt gt c d = Inl (ValueError (ShapeMismatch (shape c) (shape d))))
    \<and> (\<forall>c d. mat_lt lt gt c d = map_sum id (\<lambda>r. r < 0) (matcmp lt gt c d)
            \<and> mat_le lt gt c d = map_sum id (\<lambda>r. r \<le> 0) (matcmp lt gt c d)
            \<and> mat_gt lt gt c d = map_sum id (\<lambda>r. r > 0) (matcmp lt gt c d)
            \<and> mat_ge lt gt c d = map_sum id (\<lambda>r. r \<ge> 0) (matcmp lt gt c d))"
proof (intro conjI allI impI)
  show "matcmp lt gt a b = Inr (- 1) \<longleftrightarrow>
        (\<exists>k<msize a. lt (items a ! k) (items b ! k)
           \<and> (\<forall>j<k. \<not> lt (items a ! j) (items b ! j) \<and> \<not> gt (items a ! j) (items b ! j)))"
    by (rule matcmp_less_iff [OF assms])
  show "matcmp lt gt a b = Inr 1 \<longleftrightarrow>
        (\<exists>k<msize a. \<not> lt (items a ! k) (items b ! k) \<and> gt (items a ! k) (items b ! k)
           \<and> (\<forall>j<k. \<not> lt (items a ! j) (items b ! j) \<and> \<not> gt (items a ! j) (items b ! j)))"
    by (rule matcmp_greater_iff [OF assms])
  show "matcmp lt gt a b = Inr 0 \<longleftrightarrow>
        (\<forall>k<msize a. \<not> lt (items a ! k) (items b ! k) \<and> \<not> gt (items a ! k) (items b ! k))"
    by (rule matcmp_equal_iff [OF assms])
  show "matcmp lt gt a b = Inr (- 1) \<or> matcmp lt gt a b = Inr 0 \<or> matcmp lt gt a b = Inr 1"
    by (rule matcmp_range [OF assms])
next
  fix c :: "'a matrix" and d :: "'b matrix"
  assume "shape c \<noteq> shape d"
  then show "matcmp lt gt c d = Inl (ValueError (ShapeMismatch (shape c) (shape d)))"
    by (rule matcmp_mismatch)
next
  fix c :: "'a matrix" and d :: "'b matrix"
  show "mat_lt lt gt c d = map_sum id (\<lambda>r. r < 0) (matcmp lt gt c d)"
    by (simp add: mat_lt_def split: sum.split)
  show "mat_le lt gt c d = map_sum id (\<lambda>r. r \<le> 0) (matcmp lt gt c d)"
    by (simp add: mat_le_def split: sum.split)
  show "mat_gt lt gt c d = map_sum id (\<lambda>r. r > 0) (matcmp lt gt c d)"
    by (simp add: mat_gt_def split: sum.split)
  show "mat_ge lt gt c d = map_sum id (\<lambda>r. r \<ge> 0) (matcmp lt gt c d)"
    by (simp add: mat_ge_def split: sum.split)
qed

theorem matcmp_first_decisive_pair_witness:
  "wf_matrix \<lparr>ident = 0, shape = (2, 2), items = [1, 2, 3, 4 :: int]\<rparr>
   \<and> wf_matrix \<lparr>ident = 1, shape = (2, 2), items = [1, 2, 5, 0 :: int]\<rparr>
   \<and> matcmp (<) (>) \<lparr>ident = 0, shape = (2, 2), items = [1, 2, 3, 4 :: int]\<rparr>
                    \<lparr>ident = 1, shape = (2, 2), items = [1, 2, 5, 0 :: int]\<rparr> = Inr (- 1)
   \<and> mat_lt (<) (>) \<lparr>ident = 0, shape = (2, 2), items = [1, 2, 3, 4 :: int]\<rparr>
                    \<lparr>ident = 1, shape = (2, 2), items = [1, 2, 5, 0 :: int]\<rparr> = Inr True
   \<and> matcmp (<) (>) \<lparr>ident = 0, shape = (2, 2), items = [1, 2, 3, 4 :: int]\<rparr>
                    \<lparr>ident = 2, shape = (1, 4), items = [1, 2, 3, 4 :: int]\<rparr>
       = Inl (ValueError (ShapeMismatch (2, 2) (1, 4)))"
proof -
  let ?a = "\<lparr>ident = 0, shape = (2, 2), items = [1, 2, 3, 4 :: int]\<rparr>"
  let ?b = "\<lparr>ident = 1, shape = (2, 2), items = [1, 2, 5, 0 :: int]\<rparr>"
  let ?c = "\<lparr>ident = 2, shape = (1, 4), items = [1, 2, 3, 4 :: int]\<rparr>"
  have wa: "wf_matrix ?a" and wb: "wf_matrix ?b"
    by (simp_all add: wf_matrix_def msize_def)
  have sh: "shape ?a = shape ?b" by simp
  note main = matcmp_first_decisive_pair [OF wa wb sh, of "(<)" "(>)"]
  have j: "\<forall>j<2::nat. \<not> items ?a ! j < items ?b ! j \<and> \<not> items ?a ! j > items ?b ! j"
  proof (intro allI impI)
    fix j :: nat assume "j < 2"
    then have "j = 0 \<or> j = 1" by arith
    then show "\<not> items ?a ! j < items ?b ! j \<and> \<not> items ?a ! j > items ?b ! j" by auto
  qed
  have "\<exists>k<msize ?a. items ?a ! k < items ?b ! k
      \<and> (\<forall>j<k. \<not> items ?a ! j < items ?b ! j \<and> \<not> items ?a ! j > items ?b ! j)"
  proof (intro exI [of _ 2] conjI)
    show "2 < msize ?a" by (simp add: msize_def)
    show "items ?a ! 2 < items ?b ! 2" by simp
    show "\<forall>j<2. \<not> items ?a ! j < items ?b ! j \<and> \<not> items ?a ! j > items ?b ! j" by (rule j)
  qed
  with main have cmp: "matcmp (<) (>) ?a ?b = Inr (- 1)"
    by blast
  from main have "mat_lt (<) (>) ?a ?b = map_sum id (\<lambda>r. r < 0) (matcmp (<) (>) ?a ?b)"
    by blast
  with cmp have lt: "mat_lt (<) (>) ?a ?b = Inr True"
    by simp
  have "shape ?a \<noteq> shape ?c" by simp
  with main have "matcmp (<) (>) ?a ?c = Inl (ValueError (ShapeMismatch (shape ?a) (shape ?c)))"
    by blast
  then have mis: "matcmp (<) (>) ?a ?c = Inl (ValueError (ShapeMismatch (2, 2) (1, 4)))"
    by simp
  from wa wb cmp lt mis show ?thesis by blast
qed

section \<open>Equality and the trichotomy of matrices\<close>

lemma mat_eq_same_object: "mat_eq eq a a = Inr True"
  by (simp add: mat_eq_def)

lemma mat_eq_wf:
  assumes "wf_matrix a" "wf_matrix b" "shape a = shape b" "ident a \<noteq> ident b"
  shows "mat_eq eq a b = Inr (list_all id (map2 (\<lambda>x y. x = y \<or> eq x y) (items a) (items b)))"
  using assms(4) by (simp add: mat_eq_def matmap_wf [OF assms(1-3)] py_all_iter_of)

lemma list_all_map2_nth:
  assumes "length xs = length ys"
  shows "list_all id (map2 P xs ys) \<longleftrightarrow> (\<forall>k<length xs. P (xs ! k) (ys ! k))"
  using assms by (auto simp: map2_nth list_all_iff)

lemma mat_eq_all_pairs:
  assumes "wf_matrix a" "wf_matrix b" "shape a = shape b" "ident a \<noteq> ident b"
  shows "mat_eq eq a b =
     Inr (\<forall>k<msize a. items a ! k = items b ! k \<or> eq (items a ! k) (items b ! k))"
  using list_all_map2_nth [OF length_items_eq [OF assms(1-3)], of "\<lambda>x y. x = y \<or> eq x y"]
  by (simp add: mat_eq_wf [OF assms] length_items_wf [OF assms(1)])

text \<open>
  C10. A matrix is equal to itself whatever the \<^verbatim>\<open>__eq__\<close> of its elements
  says, since \<open>a == a\<close> returns true before any element is looked at. For two
  different matrix objects of one shape each pair of elements is compared with
  \<^verbatim>\<open>x is y or x == y\<close>, so that two matrices holding the same element objects
  are equal also when the \<^verbatim>\<open>__eq__\<close> of the elements is not reflexive.
\<close>

theorem mat_eq_reflexive_by_identity:
  "mat_eq eq a a = Inr True
   \<and> (wf_matrix a \<and> wf_matrix b \<and> shape a = shape b \<and> ident a \<noteq> ident b \<longrightarrow>
        mat_eq eq a b =
          Inr (\<forall>k<msize a. items a ! k = items b ! k \<or> eq (items a ! k) (items b ! k)))
   \<and> (wf_matrix a \<and> wf_matrix b \<and> shape a = shape b \<and> items a = items b \<longrightarrow>
        mat_eq eq a b = Inr True)"
proof (intro conjI impI)
  show "mat_eq eq a a = Inr True"
    by (rule mat_eq_same_object)
next
  assume "wf_matrix a \<and> wf_matrix b \<and> shape a = shape b \<and> ident a \<noteq> ident b"
  then show "mat_eq eq a b =
      Inr (\<forall>k<msize a. items a ! k = items b ! k \<or> eq (items a ! k) (items b ! k))"
    by (simp add: mat_eq_all_pairs)
next
  assume h: "wf_matrix a \<and> wf_matrix b \<and> shape a = shape b \<and> items a = items b"
  show "mat_eq eq a b = Inr True"
  proof (cases "ident a = ident b")
    case True
    then show ?thesis by (simp add: mat_eq_def)
  next
    case False
    with h show ?thesis by (simp add: mat_eq_all_pairs)
  qed
qed

theorem mat_eq_reflexive_by_identity_witness:
  "mat_eq (\<lambda>x y. False) \<lparr>ident = 0, shape = (1, 2), items = [7, 8 :: int]\<rparr>
                         \<lparr>ident = 0, shape = (1, 2), items = [7, 8 :: int]\<rparr> = Inr True
   \<and> wf_matrix \<lparr>ident = 0, shape = (1, 2), items = [7, 8 :: int]\<rparr>
   \<and> wf_matrix \<lparr>ident = 1, shape = (1, 2), items = [7, 8 :: int]\<rparr>
   \<and> mat_eq (\<lambda>x y. False) \<lparr>ident = 0, shape = (1, 2), items = [7, 8 :: int]\<rparr>
                           \<lparr>ident = 1, shape = (1, 2), items = [7, 8 :: int]\<rparr> = Inr True
   \<and> wf_matrix \<lparr>ident = 2, shape = (1, 2), items = [7, 9 :: int]\<rparr>
   \<and> mat_eq (\<lambda>x y. False) \<lparr>ident = 0, shape = (1, 2), items = [7, 8 :: int]\<rparr>
                           \<lparr>ident = 2, shape = (1, 2), items = [7, 9 :: int]\<rparr> = Inr False"
proof -
  let ?a = "\<lparr>ident = 0, shape = (1, 2), items = [7, 8 :: int]\<rparr>"
  let ?b = "\<lparr>ident = 1, shape = (1, 2), items = [7, 8 :: int]\<rparr>"
  let ?c = "\<lparr>ident = 2, shape = (1, 2), items = [7, 9 :: int]\<rparr>"
  have w: "wf_matrix ?a" "wf_matrix ?b" "wf_matrix ?c"
    by (simp_all add: wf_matrix_def msize_def)
  have aa: "mat_eq (\<lambda>x y. False) ?a ?a = Inr True"
    using mat_eq_reflexive_by_identity [of "\<lambda>x y. False" ?a ?a] by blast
  have "wf_matrix ?a \<and> wf_matrix ?b \<and> shape ?a = shape ?b \<and> items ?a = items ?b"
    using w by simp
  with mat_eq_reflexive_by_identity [of "\<lambda>x y. False" ?a ?b]
  have ab: "mat_eq (\<lambda>x y. False) ?a ?b = Inr True"
    by blast
  have "wf_matrix ?a \<and> wf_matrix ?c \<and> shape ?a = shape ?c \<and> ident ?a \<noteq> ident ?c"
    using w by simp
  with mat_eq_reflexive_by_identity [of "\<lambda>x y. False" ?a ?c]
  have "mat_eq (\<lambda>x y. False) ?a ?c =
      Inr (\<forall>k<msize ?a. items ?a ! k = items ?c ! k \<or> False)"
    by blast
  moreover have "\<not> (\<forall>k<msize ?a. items ?a ! k = items ?c ! k \<or> False)"
    by (simp add: msize_def) (rule exI [of _ 1], simp)
  ultimately have ac: "mat_eq (\<lambda>x y. False) ?a ?c = Inr False"
    by simp
  from aa ab ac w show ?thesis by blast
qed





section \<open>What the comparison operators of matrices return\<close>

lemma list_all2_map2:
  assumes "length xs = length ys"
  shows "list_all2 P xs ys \<longleftrightarrow> list_all id (map2 P xs ys)"
  using assms by (simp add: list_all2_conv_all_nth list_all_map2_nth)

lemma sign_of_matcmp:
  fixes c :: int
  assumes "c = - 1 \<or> c = 0 \<or> c = 1"
  shows "(c < 0) = (c = - 1)" "(c > 0) = (c = 1)" "(c \<le> 0) = (c \<noteq> 1)" "(c \<ge> 0) = (c \<noteq> - 1)"
  using assms by auto

text \<open>
  C6, as the code has it. Each of the operators \<open>==\<close>, \<open><\<close>, \<open>\<le>\<close>, \<open>>\<close>, \<open>\<ge>\<close>
  and \<open>!=\<close> of two matrices of one shape returns a single boolean. That of
  \<open>==\<close> is true exactly when all pairs of elements satisfy
  \<^verbatim>\<open>x is y or x == y\<close>, and that of \<open>!=\<close> is its negation. Those
  of the four ordering operators are lexicographic: \<open>a < b\<close> is true exactly
  when the first pair related by \<open><\<close> or \<open>>\<close> is related by \<open><\<close>, \<open>a > b\<close>
  exactly when it is related by \<open>>\<close> only, and \<open>a \<le> b\<close> and \<open>a \<ge> b\<close> are the
  negations of \<open>a > b\<close> and \<open>a < b\<close>. The named methods return a matrix of
  the results for each pair of elements.
\<close>

theorem matrix_operators_single_boolean:
  assumes "wf_matrix a" "wf_matrix b" "shape a = shape b"
    and "ident a = ident b \<longrightarrow> a = b"
  shows "mat_eq eq a b = Inr (list_all2 (\<lambda>x y. x = y \<or> eq x y) (items a) (items b))
    \<and> mat_ne eq a b = Inr (\<not> list_all2 (\<lambda>x y. x = y \<or> eq x y) (items a) (items b))
    \<and> mat_elementwise new_ident f a b =
        Inr \<lparr>ident = new_ident, shape = shape a, items = map2 f (items a) (items b)\<rparr>
    \<and> mat_lt lt gt a b =
        Inr (\<exists>k<msize a. lt (items a ! k) (items b ! k)
               \<and> (\<forall>j<k. \<not> lt (items a ! j) (items b ! j) \<and> \<not> gt (items a ! j) (items b ! j)))
    \<and> mat_gt lt gt a b =
        Inr (\<exists>k<msize a. \<not> lt (items a ! k) (items b ! k) \<and> gt (items a ! k) (items b ! k)
               \<and> (\<forall>j<k. \<not> lt (items a ! j) (items b ! j) \<and> \<not> gt (items a ! j) (items b ! j)))
    \<and> mat_le lt gt a b =
        Inr (\<not> (\<exists>k<msize a. \<not> lt (items a ! k) (items b ! k) \<and> gt (items a ! k) (items b ! k)
               \<and> (\<forall>j<k. \<not> lt (items a ! j) (items b ! j) \<and> \<not> gt (items a ! j) (items b ! j))))
    \<and> mat_ge lt gt a b =
        Inr (\<not> (\<exists>k<msize a. lt (items a ! k) (items b ! k)
               \<and> (\<forall>j<k. \<not> lt (items a ! j) (items b ! j) \<and> \<not> gt (items a ! j) (items b ! j))))"
proof -
  note wf = assms(1-3)
  obtain c where c: "matcmp lt gt a b = Inr c" and range: "c = - 1 \<or> c = 0 \<or> c = 1"
    using matcmp_range [OF wf, of lt gt] by auto
  have less: "(c = - 1) = (\<exists>k<msize a. lt (items a ! k) (items b ! k)
               \<and> (\<forall>j<k. \<not> lt (items a ! j) (items b ! j) \<and> \<not> gt (items a ! j) (items b ! j)))"
    using matcmp_less_iff [OF wf, of lt gt] by (simp add: c)
  have greater: "(c = 1) = (\<exists>k<msize a. \<not> lt (items a ! k) (items b ! k) \<and> gt (items a ! k) (items b ! k)
               \<and> (\<forall>j<k. \<not> lt (items a ! j) (items b ! j) \<and> \<not> gt (items a ! j) (items b ! j)))"
    using matcmp_greater_iff [OF wf, of lt gt] by (simp add: c)
  have eq: "mat_eq eq a b = Inr (list_all2 (\<lambda>x y. x = y \<or> eq x y) (items a) (items b))"
  proof (cases "ident a = ident b")
    case True
    with assms(4) have "a = b" by simp
    then show ?thesis by (simp add: mat_eq_def list_all2_same)
  next
    case False
    show ?thesis
      by (simp add: mat_eq_wf [OF wf False] list_all2_map2 [OF length_items_eq [OF wf]])
  qed
  moreover have "mat_ne eq a b = Inr (\<not> list_all2 (\<lambda>x y. x = y \<or> eq x y) (items a) (items b))"
    by (simp add: mat_ne_def eq)
  moreover have "mat_elementwise new_ident f a b =
        Inr \<lparr>ident = new_ident, shape = shape a, items = map2 f (items a) (items b)\<rparr>"
    by (simp add: mat_elementwise_def matmap_wf [OF wf] py_list_iter_of)
  moreover have "mat_lt lt gt a b = Inr (c = - 1)"
    by (simp add: mat_lt_def c sign_of_matcmp [OF range])
  moreover have "mat_gt lt gt a b = Inr (c = 1)"
    by (simp add: mat_gt_def c sign_of_matcmp [OF range])
  moreover have "mat_le lt gt a b = Inr (\<not> c = 1)"
    by (simp add: mat_le_def c sign_of_matcmp [OF range])
  moreover have "mat_ge lt gt a b = Inr (\<not> c = - 1)"
    by (simp add: mat_ge_def c sign_of_matcmp [OF range])
  ultimately show ?thesis
    unfolding less greater by (intro conjI)
qed

theorem matrix_operators_single_boolean_witness:
  "wf_matrix \<lparr>ident = 0, shape = (1, 2), items = [1, 5 :: int]\<rparr>
   \<and> wf_matrix \<lparr>ident = 1, shape = (1, 2), items = [2, 3 :: int]\<rparr>
   \<and> mat_eq (=) \<lparr>ident = 0, shape = (1, 2), items = [1, 5 :: int]\<rparr>
                \<lparr>ident = 1, shape = (1, 2), items = [2, 3 :: int]\<rparr> = Inr False
   \<and> mat_lt (<) (>) \<lparr>ident = 0, shape = (1, 2), items = [1, 5 :: int]\<rparr>
                    \<lparr>ident = 1, shape = (1, 2), items = [2, 3 :: int]\<rparr> = Inr True
   \<and> mat_ge (<) (>) \<lparr>ident = 0, shape = (1, 2), items = [1, 5 :: int]\<rparr>
                    \<lparr>ident = 1, shape = (1, 2), items = [2, 3 :: int]\<rparr> = Inr False"
proof -
  let ?a = "\<lparr>ident = 0, shape = (1, 2), items = [1, 5 :: int]\<rparr>"
  let ?b = "\<lparr>ident = 1, shape = (1, 2), items = [2, 3 :: int]\<rparr>"
  have wa: "wf_matrix ?a" and wb: "wf_matrix ?b"
    by (simp_all add: wf_matrix_def msize_def)
  have sh: "shape ?a = shape ?b" and idn: "ident ?a = ident ?b \<longrightarrow> ?a = ?b"
    by simp_all
  let ?first = "\<exists>k<msize ?a. items ?a ! k < items ?b ! k
      \<and> (\<forall>j<k. \<not> items ?a ! j < items ?b ! j \<and> \<not> items ?a ! j > items ?b ! j)"
  note main = matrix_operators_single_boolean [OF wa wb sh idn, of "(=)" 2 "(<)" "(<)" "(>)"]
  have "?first"
    by (rule exI [of _ 0]) (simp add: msize_def)
  then have first: "?first = True"
    by (rule eqTrueI)
  from main have "mat_eq (=) ?a ?b = Inr (list_all2 (\<lambda>x y. x = y \<or> x = y) (items ?a) (items ?b))"
    by (rule conjunct1)
  then have e: "mat_eq (=) ?a ?b = Inr False"
    by simp
  from main have "mat_lt (<) (>) ?a ?b = Inr ?first"
    by blast
  then have l: "mat_lt (<) (>) ?a ?b = Inr True"
    by (simp only: first)
  from main have "mat_ge (<) (>) ?a ?b = Inr (\<not> ?first)"
    by blast
  then have g: "mat_ge (<) (>) ?a ?b = Inr False"
    by (simp only: first not_True_eq_False)
  from wa wb e l g show ?thesis by blast
qed

text \<open>
  The claim of C6 as it is written fails: \<open>[[1, 5]] < [[2, 3]]\<close> is true, and
  the second pair of elements is not related by \<open><\<close>.
\<close>

theorem matrix_lt_not_all_pairs:
  "mat_lt (<) (>) \<lparr>ident = 0, shape = (1, 2), items = [1, 5 :: int]\<rparr>
                  \<lparr>ident = 1, shape = (1, 2), items = [2, 3 :: int]\<rparr> = Inr True
   \<and> \<not> list_all2 (<) (items \<lparr>ident = 0, shape = (1, 2), items = [1, 5 :: int]\<rparr>)
                       (items \<lparr>ident = 1, shape = (1, 2), items = [2, 3 :: int]\<rparr>)"
  by (simp add: mat_lt_def matcmp_def shape_ne_def shape_eq_def mat_iter_def getitem_def
      msize_def py_zip_def upt_rec)

section \<open>Defaults of the numeric protocols\<close>

text \<open>
  C7. The default subtraction of \<^verbatim>\<open>ComplexLike\<close> and of \<^verbatim>\<open>ComplexMatrixLike\<close>
  is derived from addition and negation: \<open>a - b\<close> is \<open>a + (-b)\<close>, and the
  reflected \<open>b - a\<close> is \<open>b + (-a)\<close>, whatever the addition gives; an exception
  of the negation is that of the subtraction. Over a group these are the
  differences \<open>a - b\<close> and \<open>b - a\<close>.
\<close>

theorem sub_derived_from_add_neg:
  fixes u v :: "'g::group_add"
  shows "(\<forall>nb. neg b = Inr nb \<longrightarrow> cl_sub add neg a b = add a nb)
    \<and> (\<forall>e. neg b = Inl e \<longrightarrow> cl_sub add neg a b = Inl e)
    \<and> (\<forall>na. neg a = Inr na \<longrightarrow> cl_rsub add neg a b = add b na)
    \<and> (\<forall>e. neg a = Inl e \<longrightarrow> cl_rsub add neg a b = Inl e)
    \<and> (\<forall>nb. mneg mb = Inr nb \<longrightarrow> cml_sub madd mneg ma mb = madd ma nb)
    \<and> (\<forall>e. mneg mb = Inl e \<longrightarrow> cml_sub madd mneg ma mb = Inl e)
    \<and> (\<forall>na. mneg ma = Inr na \<longrightarrow> cml_rsub madd mneg ma mb = madd mb na)
    \<and> (\<forall>e. mneg ma = Inl e \<longrightarrow> cml_rsub madd mneg ma mb = Inl e)
    \<and> cl_sub (\<lambda>x y. Inr (x + y)) (\<lambda>x. Inr (- x)) u v = Inr (u - v)
    \<and> cl_rsub (\<lambda>x y. Inr (x + y)) (\<lambda>x. Inr (- x)) u v = Inr (v - u)"
proof (intro conjI allI impI)
  fix nb assume "neg b = Inr nb"
  then show "cl_sub add neg a b = add a nb"
    by (simp add: cl_sub_def)
next
  fix e assume "neg b = Inl e"
  then show "cl_sub add neg a b = Inl e"
    by (simp add: cl_sub_def)
next
  fix na assume "neg a = Inr na"
  then show "cl_rsub add neg a b = add b na"
    by (simp add: cl_rsub_def)
next
  fix e assume "neg a = Inl e"
  then show "cl_rsub add neg a b = Inl e"
    by (simp add: cl_rsub_def)
next
  fix nb assume "mneg mb = Inr nb"
  then show "cml_sub madd mneg ma mb = madd ma nb"
    by (simp add: cml_sub_def)
next
  fix e assume "mneg mb = Inl e"
  then show "cml_sub madd mneg ma mb = Inl e"
    by (simp add: cml_sub_def)
next
  fix na assume "mneg ma = Inr na"
  then show "cml_rsub madd mneg ma mb = madd mb na"
    by (simp add: cml_rsub_def)
next
  fix e assume "mneg ma = Inl e"
  then show "cml_rsub madd mneg ma mb = Inl e"
    by (simp add: cml_rsub_def)
next
  show "cl_sub (\<lambda>x y. Inr (x + y)) (\<lambda>x. Inr (- x)) u v = Inr (u - v)"
    by (simp add: cl_sub_def)
  show "cl_rsub (\<lambda>x y. Inr (x + y)) (\<lambda>x. Inr (- x)) u v = Inr (v - u)"
    by (simp add: cl_rsub_def)
qed

theorem sub_derived_from_add_neg_witness:
  "cl_sub (\<lambda>x y. Inr (x + y)) (\<lambda>x. Inr (- x)) (7 :: int) 3 = Inr 4
   \<and> cl_rsub (\<lambda>x y. Inr (x + y)) (\<lambda>x. Inr (- x)) (7 :: int) 3 = Inr (- 4)
   \<and> cml_sub (\<lambda>x y. Inr (map2 (+) x y)) (\<lambda>x. Inr (map uminus x)) [7, 5 :: int] [3, 1] = Inr [4, 4]
   \<and> cml_rsub (\<lambda>x y. Inr (map2 (+) x y)) (\<lambda>x. Inr (map uminus x)) [7, 5 :: int] [3, 1] = Inr [- 4, - 4]"
proof -
  note main = sub_derived_from_add_neg [of "\<lambda>x. Inr (- x)" "3 :: int" "\<lambda>x y. Inr (x + y)" "7 :: int"
      "\<lambda>x. Inr (map uminus x)" "[3, 1 :: int]" "\<lambda>x y. Inr (map2 (+) x y)" "[7, 5 :: int]"
      "0 :: int" "0 :: int"]
  from main have "cl_sub (\<lambda>x y. Inr (x + y)) (\<lambda>x. Inr (- x)) (7 :: int) 3 = Inr (7 + - 3)"
    by blast
  then have s: "cl_sub (\<lambda>x y. Inr (x + y)) (\<lambda>x. Inr (- x)) (7 :: int) 3 = Inr 4"
    by simp
  from main have "cl_rsub (\<lambda>x y. Inr (x + y)) (\<lambda>x. Inr (- x)) (7 :: int) 3 = Inr (3 + - 7)"
    by blast
  then have r: "cl_rsub (\<lambda>x y. Inr (x + y)) (\<lambda>x. Inr (- x)) (7 :: int) 3 = Inr (- 4)"
    by simp
  from main have "cml_sub (\<lambda>x y. Inr (map2 (+) x y)) (\<lambda>x. Inr (map uminus x)) [7, 5 :: int] [3, 1]
      = Inr (map2 (+) [7, 5] (map uminus [3, 1]))"
    by blast
  then have ms: "cml_sub (\<lambda>x y. Inr (map2 (+) x y)) (\<lambda>x. Inr (map uminus x)) [7, 5 :: int] [3, 1]
      = Inr [4, 4]"
    by simp
  from main have "cml_rsub (\<lambda>x y. Inr (map2 (+) x y)) (\<lambda>x. Inr (map uminus x)) [7, 5 :: int] [3, 1]
      = Inr (map2 (+) [3, 1] (map uminus [7, 5]))"
    by blast
  then have mr: "cml_rsub (\<lambda>x y. Inr (map2 (+) x y)) (\<lambda>x. Inr (map uminus x)) [7, 5 :: int] [3, 1]
      = Inr [- 4, - 4]"
    by simp
  from s r ms mr show ?thesis by blast
qed


end
